theory Spec2Isabelle
  imports Complex_Main
begin

section \<open>JavaScript values\<close>

text \<open>
  A JavaScript string is a sequence of UTF-16 code units; the model keeps the code units
  as natural numbers, so that every string the services can receive is a value of the
  model (the white space class of a regular expression reaches beyond Latin-1, and the
  rejection marker of the admin service is not ASCII). \<open>str\<close> reads an ASCII literal.

  A JavaScript number is an IEEE double. The model idealises the finite doubles as the
  reals (no rounding error, no overflow) and keeps the three special values where the
  services can produce them: \<open>Math.min()\<close> and \<open>Math.max()\<close> of no argument, and
  \<open>parseFloat\<close> of a string that starts no number.
\<close>

type_synonym jsstring = "nat list"

definition str :: "string \<Rightarrow> jsstring" where
  "str s = map of_char s"

datatype number = Num real | PosInfinity | NegInfinity | NaN

text \<open>\<open>Math.round\<close>: the nearest integer, a tie going towards plus infinity.\<close>

definition Math_round :: "real \<Rightarrow> int" where
  "Math_round x = \<lfloor>x + 1 / 2\<rfloor>"

text \<open>\<open>Math.round(x * 10) / 10\<close>, on a finite number and on a possibly infinite one.\<close>

definition round1 :: "real \<Rightarrow> real" where
  "round1 x = real_of_int (Math_round (x * 10)) / 10"

fun round1_number :: "number \<Rightarrow> number" where
  "round1_number (Num x) = Num (round1 x)"
| "round1_number PosInfinity = PosInfinity"
| "round1_number NegInfinity = NegInfinity"
| "round1_number NaN = NaN"

text \<open>\<open>Math.min(...xs)\<close> and \<open>Math.max(...xs)\<close> of finite numbers; no argument gives the
  neutral element.\<close>

fun Math_min :: "real list \<Rightarrow> number" where
  "Math_min [] = PosInfinity"
| "Math_min (x # xs) = Num (foldl min x xs)"

fun Math_max :: "real list \<Rightarrow> number" where
  "Math_max [] = NegInfinity"
| "Math_max (x # xs) = Num (foldl max x xs)"

text \<open>The remainder operator \<open>%\<close> on integers: the result has the sign of the dividend.\<close>

definition js_rem :: "int \<Rightarrow> int \<Rightarrow> int" where
  "js_rem a b = sgn a * (\<bar>a\<bar> mod \<bar>b\<bar>)"


section \<open>WeatherService: the aggregation of one day's hourly series\<close>

text \<open>
  The \<open>hourly\<close> object of the archive API's response: parallel arrays, an entry being a
  number or \<open>null\<close> (JSON carries finite numbers only).
\<close>

record hourly =
  hourly_time :: "jsstring list"
  temperature_2m :: "real option list"
  relative_humidity_2m :: "real option list"
  hourly_precipitation :: "real option list"
  surface_pressure :: "real option list"
  cloud_cover :: "real option list"
  wind_speed_10m :: "real option list"
  wind_direction_10m :: "real option list"

text \<open>
  The interface \<open>EditionWeather\<close>. \<open>min\<close> and \<open>max\<close> of the temperature are the only
  fields that can be infinite (an all-null series); \<open>directionText\<close> is \<open>undefined\<close>
  (\<open>None\<close>) when the index computed by \<open>getWindDirection\<close> is outside the array.
\<close>

record Temperature =
  t_avg :: real
  t_min :: number
  t_max :: number

record Wind =
  speed :: real
  direction :: int
  directionText :: "jsstring option"

record EditionWeather =
  date :: jsstring
  temperature :: Temperature
  condition :: jsstring
  conditionText :: jsstring
  precipitation :: real
  wind :: Wind
  humidity :: int
  pressure :: int
  cloudCover :: int
  fetchedAt :: jsstring

text \<open>\<open>calculateAverage\<close>: filter the nulls out, 0 when nothing is left, else the
  left-to-right sum divided by the count.\<close>

definition calculateAverage :: "real option list \<Rightarrow> real" where
  "calculateAverage values =
     (let validValues = map the (filter (\<lambda>v. v \<noteq> None) values)
      in if length validValues = 0 then 0
         else foldl (\<lambda>sum val. sum + val) 0 validValues / real (length validValues))"

text \<open>\<open>determineCondition\<close> returns an object \<open>{code, text}\<close>.\<close>

record cond =
  cond_code :: jsstring
  cond_text :: jsstring

definition determineCondition :: "real \<Rightarrow> real \<Rightarrow> cond" where
  "determineCondition precip cloud =
     (if precip > 10 then \<lparr>cond_code = str ''rainy'', cond_text = str ''Lluvioso''\<rparr>
      else if precip > 0 then
        \<lparr>cond_code = str ''light_rain'', cond_text = str ''Lluvia ligera''\<rparr>
      else if cloud > 75 then \<lparr>cond_code = str ''cloudy'', cond_text = str ''Nublado''\<rparr>
      else if cloud > 30 then
        \<lparr>cond_code = str ''partly_cloudy'', cond_text = str ''Parcialmente nublado''\<rparr>
      else \<lparr>cond_code = str ''sunny'', cond_text = str ''Soleado''\<rparr>)"

text \<open>\<open>getWindDirection\<close>: \<open>directions[Math.round(degrees / 45) % 8]\<close>. A negative
  index is no element of the array and the lookup gives \<open>undefined\<close>.\<close>

definition directions :: "jsstring list" where
  "directions = [str ''N'', str ''NE'', str ''E'', str ''SE'', str ''S'', str ''SW'',
     str ''W'', str ''NW'']"

definition getWindDirection :: "real \<Rightarrow> jsstring option" where
  "getWindDirection degrees =
     (let index = js_rem (Math_round (degrees / 45)) 8
      in if 0 \<le> index \<and> nat index < length directions
         then Some (directions ! nat index) else None)"

text \<open>
  The body of \<open>getHistoricalWeather\<close> between the check of \<open>data.hourly\<close> and the
  \<open>return\<close>: the reduction of the hourly series to an \<open>EditionWeather\<close>. The total
  precipitation counts a null (and any other falsy entry) as 0. \<open>stamp\<close> is
  \<open>new Date().toISOString()\<close>.
\<close>

definition aggregate :: "jsstring \<Rightarrow> jsstring \<Rightarrow> hourly \<Rightarrow> EditionWeather" where
  "aggregate day stamp h =
     (let avgTemp = calculateAverage (temperature_2m h);
          minTemp = Math_min (map the (filter (\<lambda>t. t \<noteq> None) (temperature_2m h)));
          maxTemp = Math_max (map the (filter (\<lambda>t. t \<noteq> None) (temperature_2m h)));
          avgHumidity = calculateAverage (relative_humidity_2m h);
          totalPrecip =
            foldl (\<lambda>sum val. sum + (case val of None \<Rightarrow> 0 | Some v \<Rightarrow> v)) 0
              (hourly_precipitation h);
          avgPressure = calculateAverage (surface_pressure h);
          avgCloudCover = calculateAverage (cloud_cover h);
          avgWindSpeed = calculateAverage (wind_speed_10m h);
          avgWindDirection = calculateAverage (wind_direction_10m h);
          cnd = determineCondition totalPrecip avgCloudCover
      in \<lparr>date = day,
          temperature =
            \<lparr>t_avg = round1 avgTemp, t_min = round1_number minTemp,
             t_max = round1_number maxTemp\<rparr>,
          condition = cond_code cnd,
          conditionText = cond_text cnd,
          precipitation = round1 totalPrecip,
          wind =
            \<lparr>speed = round1 avgWindSpeed, direction = Math_round avgWindDirection,
             directionText = getWindDirection avgWindDirection\<rparr>,
          humidity = Math_round avgHumidity,
          pressure = Math_round avgPressure,
          cloudCover = Math_round avgCloudCover,
          fetchedAt = stamp\<rparr>)"

section \<open>WeatherService: reading a point geometry\<close>

text \<open>
  The character classes of the regular expression
  \<^verbatim>\<open>/POINT\(([0-9.-]+)\s+([0-9.-]+)\)/\<close>: a digit, a character of \<open>[0-9.-]\<close>, and
  the white space \<open>\s\<close> (tab, line feed, vertical tab, form feed, carriage return, space,
  no-break space, U+1680, U+2000 to U+200A, the line and paragraph separators, U+202F,
  U+205F, U+3000 and U+FEFF).
\<close>

definition is_digit :: "nat \<Rightarrow> bool" where
  "is_digit u = (48 \<le> u \<and> u \<le> 57)"

definition coord_char :: "nat \<Rightarrow> bool" where
  "coord_char u = (is_digit u \<or> u = 46 \<or> u = 45)"

definition white_space :: "nat \<Rightarrow> bool" where
  "white_space u =
     ((9 \<le> u \<and> u \<le> 13) \<or> u = 32 \<or> u = 160 \<or> u = 5760 \<or> (8192 \<le> u \<and> u \<le> 8202)
      \<or> u = 8232 \<or> u = 8233 \<or> u = 8239 \<or> u = 8287 \<or> u = 12288 \<or> u = 65279)"

text \<open>
  The expression tried at the start of a string. The three classes and the closing
  parenthesis exclude one another, so each greedy \<open>+\<close> can only stop at the end of its
  run and backtracking never finds a second way: the matcher takes each run whole. The
  result is the pair of captured groups.
\<close>

definition match_here :: "jsstring \<Rightarrow> (jsstring \<times> jsstring) option" where
  "match_here s =
     (if take 6 s \<noteq> str ''POINT('' then None
      else let r = drop 6 s;
               g1 = takeWhile coord_char r; r1 = dropWhile coord_char r;
               ws = takeWhile white_space r1; r2 = dropWhile white_space r1;
               g2 = takeWhile coord_char r2; r3 = dropWhile coord_char r2
           in if g1 = [] \<or> ws = [] \<or> g2 = [] then None
              else (case r3 of [] \<Rightarrow> None
                    | c # _ \<Rightarrow> if c = 41 then Some (g1, g2) else None))"

text \<open>\<open>locationStr.match(re)\<close> without the global flag: the first start position, from
  the left, at which the expression matches; \<open>null\<close> (\<open>None\<close>) when there is none.\<close>

fun regex_match :: "jsstring \<Rightarrow> (jsstring \<times> jsstring) option" where
  "regex_match [] = match_here []"
| "regex_match (c # cs) =
     (case match_here (c # cs) of Some m \<Rightarrow> Some m | None \<Rightarrow> regex_match cs)"

text \<open>
  \<open>parseFloat\<close>: leading white space is skipped, then the longest prefix that is a
  decimal literal is read (a sign, \<open>Infinity\<close> or digits with an optional fraction and an
  optional exponent); what follows is ignored, and \<open>NaN\<close> is the result when no prefix
  is a literal.
\<close>

definition digits_value :: "jsstring \<Rightarrow> nat" where
  "digits_value ds = foldl (\<lambda>acc d. 10 * acc + (d - 48)) 0 ds"

definition exponent_of :: "jsstring \<Rightarrow> int" where
  "exponent_of r =
     (case r of [] \<Rightarrow> 0
      | c # r' \<Rightarrow>
          if c = 101 \<or> c = 69 then
            (let neg = (case r' of [] \<Rightarrow> False | x # _ \<Rightarrow> x = 45);
                 ds = (case r' of [] \<Rightarrow> [] | x # xs \<Rightarrow> if x = 45 \<or> x = 43 then xs else r');
                 es = takeWhile is_digit ds
             in if es = [] then 0
                else if neg then - int (digits_value es) else int (digits_value es))
          else 0)"

definition parseFloat :: "jsstring \<Rightarrow> number" where
  "parseFloat s =
     (let t = dropWhile white_space s;
          neg = (case t of [] \<Rightarrow> False | x # _ \<Rightarrow> x = 45);
          u = (case t of [] \<Rightarrow> [] | x # xs \<Rightarrow> if x = 45 \<or> x = 43 then xs else t)
      in if take 8 u = str ''Infinity'' then (if neg then NegInfinity else PosInfinity)
         else
           let ip = takeWhile is_digit u; r1 = dropWhile is_digit u;
               fp = (case r1 of [] \<Rightarrow> [] | x # xs \<Rightarrow> if x = 46 then takeWhile is_digit xs else []);
               r2 = (case r1 of [] \<Rightarrow> [] | x # xs \<Rightarrow> if x = 46 then dropWhile is_digit xs else r1)
           in if ip = [] \<and> fp = [] then NaN
              else
                let m = real (digits_value ip) + real (digits_value fp) / 10 ^ length fp;
                    e = exponent_of r2;
                    v = (if 0 \<le> e then m * 10 ^ nat e else m / 10 ^ nat (- e))
                in Num (if neg then - v else v))"

section \<open>Errors\<close>

text \<open>The admin service throws plain \<open>Error\<close>s, the weather service \<open>AppError\<close>s with a
  message and a status code.\<close>

datatype error = Error jsstring | AppError jsstring nat

text \<open>
  The block the source writes twice, for the edition's and for the event's location:
  match, then \<open>parseFloat\<close> of the second group as the latitude and of the first as the
  longitude, or an \<open>AppError\<close> with status 500 and the message \<open>msg\<close> of that branch. The
  result is the pair (latitude, longitude).
\<close>

definition parseLocation :: "jsstring \<Rightarrow> jsstring \<Rightarrow> error + (number \<times> number)" where
  "parseLocation msg locationStr =
     (case regex_match locationStr of
        Some (g1, g2) \<Rightarrow> Inr (parseFloat g2, parseFloat g1)
      | None \<Rightarrow> Inl (AppError msg 500))"

section \<open>WeatherService: fetching and saving\<close>

text \<open>
  The request to the archive API (the list of hourly metrics and the time zone are
  constants of the source) and what comes back: a response whose \<open>data.hourly\<close> may be
  missing, or a failure with the status of \<open>error.response\<close> when there is one and the
  message of the error.
\<close>

record weather_request =
  latitude :: number
  longitude :: number
  start_date :: jsstring
  end_date :: jsstring

datatype api_response = Response "hourly option" | Failure "nat option" jsstring

text \<open>
  What the service reads from outside: the clock at the date check and at the stamp of the
  result (milliseconds since the epoch), \<open>Date.prototype.toISOString\<close>, and the archive
  API.
\<close>

record env =
  current_time :: int
  stamp_time :: int
  toISOString :: "int \<Rightarrow> jsstring"
  archive_api :: "weather_request \<Rightarrow> api_response"

text \<open>
  The edition row as the service reads it: \<open>event_location\<close> is
  \<open>edition.competition.event.location\<close>. A location is \<open>null\<close> or a geometry string.
  The state is the table of editions by id and the requests sent to the archive API.
\<close>

record edition =
  startDate :: int
  location :: "jsstring option"
  event_location :: "jsstring option"
  weather :: "EditionWeather option"
  weatherFetched :: bool

record 'a weather_state =
  editions :: "jsstring \<rightharpoonup> 'a edition_scheme"
  api_calls :: "weather_request list"

text \<open>The truth value of a nullable string in a condition: \<open>null\<close> and the empty string
  are falsy.\<close>

fun truthy :: "jsstring option \<Rightarrow> bool" where
  "truthy None = False"
| "truthy (Some s) = (s \<noteq> [])"

definition getHistoricalWeather ::
  "env \<Rightarrow> number \<Rightarrow> number \<Rightarrow> jsstring \<Rightarrow> 'a weather_state
     \<Rightarrow> (error + EditionWeather) \<times> 'a weather_state" where
  "getHistoricalWeather ev lat lon day st =
     (let req = \<lparr>latitude = lat, longitude = lon, start_date = day, end_date = day\<rparr>;
          st' = st\<lparr>api_calls := api_calls st @ [req]\<rparr>
      in case archive_api ev req of
           Failure status message \<Rightarrow>
             if status = Some 404 then
               (Inl (AppError (str ''Weather data not available for this location/date'') 404),
                st')
             else (Inl (AppError (str ''Error fetching weather data: '' @ message) 500), st')
         | Response None \<Rightarrow>
             (Inl (AppError (str ''No weather data available for this date'') 404), st')
         | Response (Some h) \<Rightarrow>
             (Inr (aggregate day (toISOString ev (stamp_time ev)) h), st'))"

text \<open>
  The coordinates of an edition, as \<open>fetchWeatherForEdition\<close> finds them between its
  date check and its call of \<open>getHistoricalWeather\<close>: the pair (latitude, longitude) or
  the error thrown.
\<close>

definition resolveCoordinates :: "'a edition_scheme \<Rightarrow> error + (number \<times> number)" where
  "resolveCoordinates e =
     (if truthy (location e) then
        parseLocation (str ''Invalid edition location format'') (the (location e))
      else if truthy (event_location e) then
        parseLocation (str ''Invalid event location format'') (the (event_location e))
      else Inl (AppError (str ''No location data available for this edition'') 400))"

definition fetchWeatherForEdition ::
  "env \<Rightarrow> jsstring \<Rightarrow> bool \<Rightarrow> 'a weather_state
     \<Rightarrow> (error + ('a edition_scheme \<times> EditionWeather)) \<times> 'a weather_state" where
  "fetchWeatherForEdition ev editionId force st =
     (case editions st editionId of
        None \<Rightarrow> (Inl (AppError (str ''Edition not found'') 404), st)
      | Some e \<Rightarrow>
          if weatherFetched e \<and> \<not> force then
            (Inl (AppError (str ''Weather data already fetched. Use force=true to refetch.'')
               400), st)
          else if startDate e > current_time ev then
            (Inl (AppError (str ''Cannot fetch weather for future editions'') 400), st)
          else
            (case resolveCoordinates e of
               Inl err \<Rightarrow> (Inl err, st)
             | Inr (lat, lon) \<Rightarrow>
                 (let dateStr = takeWhile (\<lambda>u. u \<noteq> 84) (toISOString ev (startDate e))
                  in case getHistoricalWeather ev lat lon dateStr st of
                       (Inl err, st1) \<Rightarrow> (Inl err, st1)
                     | (Inr w, st1) \<Rightarrow>
                         (let updatedEdition = e\<lparr>weather := Some w, weatherFetched := True\<rparr>
                          in (Inr (updatedEdition, w),
                              st1\<lparr>editions := (editions st1)(editionId \<mapsto> updatedEdition)\<rparr>)))))"

section \<open>CompetitionAdminService\<close>

text \<open>
  The enumeration \<open>CompetitionStatus\<close> is declared by the database schema; the sources
  name three of its members, and \<open>OtherStatus\<close> stands for the others, by name.
\<close>

datatype CompetitionStatus = DRAFT | PUBLISHED | CANCELLED | OtherStatus jsstring

fun status_name :: "CompetitionStatus \<Rightarrow> jsstring" where
  "status_name DRAFT = str ''DRAFT''"
| "status_name PUBLISHED = str ''PUBLISHED''"
| "status_name CANCELLED = str ''CANCELLED''"
| "status_name (OtherStatus n) = n"

text \<open>
  The competition row: the fields the service reads or writes, every other column being
  the rest of the record. \<open>organizer_email\<close> is \<open>competition.organizer.email\<close>. The
  description may be \<open>null\<close>, which string concatenation writes as \<open>null\<close>.
\<close>

record competition =
  status :: CompetitionStatus
  description :: "jsstring option"
  organizer_email :: jsstring

record ApproveCompetitionData =
  adminNotes :: "jsstring option"

record RejectCompetitionData =
  rejectionReason :: jsstring

datatype log_level = Info | Warn

record 'a admin_state =
  competitions :: "jsstring \<rightharpoonup> 'a competition_scheme"
  invalidated :: "jsstring list"
  logged :: "(log_level \<times> jsstring) list"

fun to_string :: "jsstring option \<Rightarrow> jsstring" where
  "to_string None = str ''null''"
| "to_string (Some s) = s"

definition invalidateCache :: "jsstring \<Rightarrow> 'a admin_state \<Rightarrow> 'a admin_state" where
  "invalidateCache key st = st\<lparr>invalidated := invalidated st @ [key]\<rparr>"

definition logger :: "log_level \<Rightarrow> jsstring \<Rightarrow> 'a admin_state \<Rightarrow> 'a admin_state" where
  "logger lvl message st = st\<lparr>logged := logged st @ [(lvl, message)]\<rparr>"

definition approveCompetition ::
  "jsstring \<Rightarrow> jsstring \<Rightarrow> ApproveCompetitionData option \<Rightarrow> 'a admin_state
     \<Rightarrow> (error + 'a competition_scheme) \<times> 'a admin_state" where
  "approveCompetition competitionId adminId data st =
     (case competitions st competitionId of
        None \<Rightarrow> (Inl (Error (str ''Competition not found'')), st)
      | Some c \<Rightarrow>
          if status c \<noteq> DRAFT then
            (Inl (Error (str ''Only DRAFT competitions can be approved'')), st)
          else
            (let notes = (case data of None \<Rightarrow> None | Some d \<Rightarrow> adminNotes d);
                 updated =
                   (if truthy notes then
                      c\<lparr>status := PUBLISHED,
                        description :=
                          Some (to_string (description c) @ [10, 10] @ str ''---''
                            @ [10] @ str ''Notas admin: '' @ the notes)\<rparr>
                    else c\<lparr>status := PUBLISHED\<rparr>);
                 st1 = st\<lparr>competitions := (competitions st)(competitionId \<mapsto> updated)\<rparr>;
                 st2 = invalidateCache (str ''competition:'' @ competitionId) st1;
                 st3 = invalidateCache (str ''competitions:list'') st2;
                 st4 = logger Info
                   (str ''Competition '' @ competitionId @ str '' approved by admin ''
                      @ adminId @ str ''. Organizer: '' @ organizer_email c) st3
             in (Inr updated, st4)))"

text \<open>The marker of a rejection: two line feeds, three dashes, a line feed, the warning
  sign U+26A0 with its variation selector U+FE0F, and the word.\<close>

definition rejectCompetition ::
  "jsstring \<Rightarrow> jsstring \<Rightarrow> RejectCompetitionData \<Rightarrow> 'a admin_state
     \<Rightarrow> (error + 'a competition_scheme) \<times> 'a admin_state" where
  "rejectCompetition competitionId adminId data st =
     (case competitions st competitionId of
        None \<Rightarrow> (Inl (Error (str ''Competition not found'')), st)
      | Some c \<Rightarrow>
          if status c \<noteq> DRAFT then
            (Inl (Error (str ''Only DRAFT competitions can be rejected'')), st)
          else
            (let updated =
                   c\<lparr>description :=
                       Some (to_string (description c) @ [10, 10] @ str ''---'' @ [10]
                         @ [9888, 65039] @ str '' RECHAZADA: '' @ rejectionReason data)\<rparr>;
                 st1 = st\<lparr>competitions := (competitions st)(competitionId \<mapsto> updated)\<rparr>;
                 st2 = logger Warn
                   (str ''Competition '' @ competitionId @ str '' rejected by admin ''
                      @ adminId @ str ''. Reason: '' @ rejectionReason data
                      @ str ''. Organizer: '' @ organizer_email c) st1
             in (Inr updated, st2)))"

definition updateCompetitionStatus ::
  "jsstring \<Rightarrow> CompetitionStatus \<Rightarrow> jsstring \<Rightarrow> 'a admin_state
     \<Rightarrow> (error + 'a competition_scheme) \<times> 'a admin_state" where
  "updateCompetitionStatus competitionId newStatus adminId st =
     (case competitions st competitionId of
        None \<Rightarrow> (Inl (Error (str ''Competition not found'')), st)
      | Some c \<Rightarrow>
          (let updated = c\<lparr>status := newStatus\<rparr>;
               st1 = st\<lparr>competitions := (competitions st)(competitionId \<mapsto> updated)\<rparr>;
               st2 = invalidateCache (str ''competition:'' @ competitionId) st1;
               st3 = invalidateCache (str ''competitions:list'') st2;
               st4 = logger Info
                 (str ''Competition '' @ competitionId @ str '' status changed from ''
                    @ status_name (status c) @ str '' to '' @ status_name newStatus
                    @ str '' by admin '' @ adminId) st3
           in (Inr updated, st4)))"

section \<open>Names of the specification\<close>

text \<open>The five conditions of the classifier, and the non-null entries of a series.\<close>

definition rainy :: cond where
  "rainy = \<lparr>cond_code = str ''rainy'', cond_text = str ''Lluvioso''\<rparr>"

definition light_rain :: cond where
  "light_rain = \<lparr>cond_code = str ''light_rain'', cond_text = str ''Lluvia ligera''\<rparr>"

definition cloudy :: cond where
  "cloudy = \<lparr>cond_code = str ''cloudy'', cond_text = str ''Nublado''\<rparr>"

definition partly_cloudy :: cond where
  "partly_cloudy =
     \<lparr>cond_code = str ''partly_cloudy'', cond_text = str ''Parcialmente nublado''\<rparr>"

definition sunny :: cond where
  "sunny = \<lparr>cond_code = str ''sunny'', cond_text = str ''Soleado''\<rparr>"

definition non_null :: "'a option list \<Rightarrow> 'a list" where
  "non_null vs = concat (map (\<lambda>v. case v of None \<Rightarrow> [] | Some x \<Rightarrow> [x]) vs)"




definition unsigned_decimal :: "jsstring \<Rightarrow> bool" where
  "unsigned_decimal s =
     (takeWhile is_digit s \<noteq> [] \<and>
      (case dropWhile is_digit s of [] \<Rightarrow> True
       | c # fp \<Rightarrow> c = 46 \<and> fp \<noteq> [] \<and> list_all is_digit fp))"


definition signed_decimal :: "jsstring \<Rightarrow> bool" where
  "signed_decimal s =
     (case s of [] \<Rightarrow> False
      | c # r \<Rightarrow> if c = 45 then unsigned_decimal r else unsigned_decimal s)"


text \<open>The exact form \<open>POINT(<lon> <lat>)\<close>: the prefix, a signed decimal, one space, a
  signed decimal, the closing parenthesis, and nothing else.\<close>

definition well_formed_point :: "jsstring \<Rightarrow> bool" where
  "well_formed_point s =
     (let r = drop 6 s;
          lon = takeWhile (\<lambda>u. u \<noteq> 32) r; r1 = dropWhile (\<lambda>u. u \<noteq> 32) r;
          lat = takeWhile (\<lambda>u. u \<noteq> 41) (drop 1 r1);
          r2 = dropWhile (\<lambda>u. u \<noteq> 41) (drop 1 r1)
      in take 6 s = str ''POINT('' \<and> r1 \<noteq> [] \<and> r2 = [41]
         \<and> signed_decimal lon \<and> signed_decimal lat)"

text \<open>The text a rejection puts between the old description and the reason.\<close>

definition reject_marker :: jsstring where
  "reject_marker = [10, 10] @ str ''---'' @ [10] @ [9888, 65039] @ str '' RECHAZADA: ''"

section \<open>Example data\<close>

text \<open>
  One day of three hourly observations with gaps (15 mm of precipitation in total, cloud
  cover averaging 50), an environment whose archive answers with it, an edition of
  1 June 2024 with a location of its own and one of its event, and a draft competition.
\<close>

definition example_hourly :: hourly where
  "example_hourly =
     \<lparr>hourly_time = [str ''2024-06-01T00:00'', str ''2024-06-01T01:00'', str ''2024-06-01T02:00''],
      temperature_2m = [Some (1004 / 100), None, Some (2006 / 100)],
      relative_humidity_2m = [Some 60, Some 71, None],
      hourly_precipitation = [Some 5, None, Some 10],
      surface_pressure = [Some 1013, Some 1015, Some 1014],
      cloud_cover = [Some 40, Some 60, None],
      wind_speed_10m = [Some 10, Some 20, Some 12],
      wind_direction_10m = [Some 350, Some 10, None]\<rparr>"

definition example_env :: env where
  "example_env =
     \<lparr>current_time = 1717500000000, stamp_time = 1717500000500,
      toISOString = (\<lambda>t. str ''2024-06-01T08:00:00.000Z''),
      archive_api = (\<lambda>r. Response (Some example_hourly))\<rparr>"

definition example_edition :: edition where
  "example_edition =
     \<lparr>startDate = 1717228800000, location = Some (str ''POINT(-3.7038 40.4168)''),
      event_location = Some (str ''POINT(2.1734 41.3851)''), weather = None,
      weatherFetched = False\<rparr>"

definition example_editions :: "edition \<Rightarrow> unit weather_state" where
  "example_editions e = \<lparr>editions = [str ''ed-2024'' \<mapsto> e], api_calls = []\<rparr>"

definition example_competition :: competition where
  "example_competition =
     \<lparr>status = DRAFT, description = Some (str ''Trail 42k''),
      organizer_email = str ''org@example.com''\<rparr>"

definition example_admin :: "competition \<Rightarrow> unit admin_state" where
  "example_admin c = \<lparr>competitions = [str ''c-1'' \<mapsto> c], invalidated = [], logged = []\<rparr>"

section \<open>The condition classifier\<close>

lemmas cond_defs = rainy_def light_rain_def cloudy_def partly_cloudy_def sunny_def

lemma five_codes_distinct:
  "distinct (map cond_code [rainy, light_rain, cloudy, partly_cloudy, sunny])"
  by (simp add: cond_defs str_def)

text \<open>
  Claim C1. For every total precipitation \<open>p\<close> and average cloud cover \<open>c\<close>,
  \<open>determineCondition\<close> returns one of the five conditions (code and text paired), and
  which one is decided in priority order: rainy exactly when \<open>p > 10\<close>; light rain exactly
  when that fails and \<open>p > 0\<close>; cloudy exactly when no precipitation threshold holds and
  \<open>c > 75\<close>; partly cloudy exactly when, further, \<open>c > 75\<close> fails and \<open>c > 30\<close>; sunny
  exactly when none of the four thresholds holds. In particular 15 mm is rainy for every
  cloud cover.
\<close>

theorem determineCondition_priority:
  "determineCondition p c \<in> set [rainy, light_rain, cloudy, partly_cloudy, sunny]
   \<and> (determineCondition p c = rainy \<longleftrightarrow> p > 10)
   \<and> (determineCondition p c = light_rain \<longleftrightarrow> \<not> p > 10 \<and> p > 0)
   \<and> (determineCondition p c = cloudy \<longleftrightarrow> \<not> p > 0 \<and> c > 75)
   \<and> (determineCondition p c = partly_cloudy \<longleftrightarrow> \<not> p > 0 \<and> \<not> c > 75 \<and> c > 30)
   \<and> (determineCondition p c = sunny \<longleftrightarrow> \<not> p > 0 \<and> \<not> c > 30)
   \<and> determineCondition 15 c = rainy"
  by (simp add: determineCondition_def cond_defs str_def)

text \<open>The claim's example, alone and through the aggregation of the example day, whose
  precipitation totals 15 mm and whose cloud cover averages 50.\<close>

theorem determineCondition_priority_witness:
  "determineCondition 15 50 = rainy
   \<and> condition (aggregate (str ''2024-06-01'') (str ''now'') example_hourly) = str ''rainy''"
  using determineCondition_priority[of 15 50]
  by (simp add: aggregate_def example_hourly_def calculateAverage_def rainy_def)

section \<open>The average of a series\<close>

lemma foldl_add_sum_list: "foldl (\<lambda>sum val. sum + val) a xs = a + sum_list (xs :: real list)"
  by (induction xs arbitrary: a) simp_all

lemma valid_non_null: "map the (filter (\<lambda>v. v \<noteq> None) vs) = non_null vs"
  by (induction vs) (auto simp: non_null_def)


lemma set_non_null: "set (non_null vs) = {x. Some x \<in> set vs}"
  by (induction vs) (auto simp: non_null_def split: option.splits)

lemma calculateAverage_eq:
  "calculateAverage vs =
     (if non_null vs = [] then 0 else sum_list (non_null vs) / real (length (non_null vs)))"
  unfolding calculateAverage_def valid_non_null Let_def
  by (simp add: foldl_add_sum_list)



section \<open>The temperature of the aggregated day\<close>










text \<open>With no non-null temperature the order fails: the minimum is plus infinity, the
  average 0 and the maximum minus infinity.\<close>

lemma temperature_all_null:
  "temperature (aggregate day stamp (h\<lparr>temperature_2m := [None, None]\<rparr>))
     = \<lparr>t_avg = 0, t_min = PosInfinity, t_max = NegInfinity\<rparr>"
  by (simp add: aggregate_def calculateAverage_def round1_def Math_round_def Let_def)

section \<open>The compass label\<close>


lemma calculateAverage_nonneg:
  "\<forall>x. Some x \<in> set vs \<longrightarrow> 0 \<le> x \<Longrightarrow> 0 \<le> calculateAverage vs"
  by (auto simp: calculateAverage_eq set_non_null intro!: divide_nonneg_nonneg sum_list_nonneg)



text \<open>Below zero the remainder keeps the sign of the rounded quotient, and the lookup
  finds no element.\<close>

lemma getWindDirection_negative: "getWindDirection (- 45) = None"
  by (simp add: getWindDirection_def Math_round_def js_rem_def)

section \<open>Fetching the weather of an edition: the guards\<close>

text \<open>
  Claim C5. For every edition with \<open>weatherFetched = true\<close>, \<open>fetchWeatherForEdition\<close>
  with \<open>force = false\<close> fails with the already-fetched error (status 400) and returns the
  state it was given: no request to the archive API, no change to any edition.
\<close>

theorem fetch_already_fetched:
  "editions st editionId = Some e \<Longrightarrow> weatherFetched e \<Longrightarrow>
   fetchWeatherForEdition ev editionId False st =
     (Inl (AppError (str ''Weather data already fetched. Use force=true to refetch.'') 400), st)"
  by (simp add: fetchWeatherForEdition_def)

theorem fetch_already_fetched_witness:
  "fetchWeatherForEdition example_env (str ''ed-2024'') False
     (example_editions (example_edition\<lparr>weatherFetched := True\<rparr>))
   = (Inl (AppError (str ''Weather data already fetched. Use force=true to refetch.'') 400),
      example_editions (example_edition\<lparr>weatherFetched := True\<rparr>))"
  using fetch_already_fetched[of "example_editions (example_edition\<lparr>weatherFetched := True\<rparr>)"
      "str ''ed-2024''" "example_edition\<lparr>weatherFetched := True\<rparr>" example_env]
  by (simp add: example_editions_def)

text \<open>
  Claim C6, as stated, fails: the already-fetched guard stands before the date check, so
  an edition that is already fetched and whose start date is in the future is refused
  with the already-fetched error when \<open>force\<close> is false.
\<close>

theorem fetch_future_date_counterexample:
  "current_time example_env
     < startDate (example_edition\<lparr>startDate := 1800000000000, weatherFetched := True\<rparr>)
   \<and> fst (fetchWeatherForEdition example_env (str ''ed-2024'') False
       (example_editions (example_edition\<lparr>startDate := 1800000000000, weatherFetched := True\<rparr>)))
     = Inl (AppError (str ''Weather data already fetched. Use force=true to refetch.'') 400)
   \<and> fst (fetchWeatherForEdition example_env (str ''ed-2024'') False
       (example_editions (example_edition\<lparr>startDate := 1800000000000, weatherFetched := True\<rparr>)))
     \<noteq> Inl (AppError (str ''Cannot fetch weather for future editions'') 400)"
  by (simp add: fetchWeatherForEdition_def example_editions_def example_edition_def
      example_env_def str_def)

text \<open>
  Claim C6, amended. For every edition whose start date is strictly after the current
  time and that passes the already-fetched guard (not yet fetched, or \<open>force\<close> is true),
  \<open>fetchWeatherForEdition\<close> fails with the future-date error (status 400) whatever the
  locations of the edition and of its event are, and returns the state it was given: no
  location is parsed, no request is sent, no edition changes.
\<close>

theorem fetch_future_date:
  "editions st editionId = Some e \<Longrightarrow> \<not> (weatherFetched e \<and> \<not> force) \<Longrightarrow>
   startDate e > current_time ev \<Longrightarrow>
   fetchWeatherForEdition ev editionId force st =
     (Inl (AppError (str ''Cannot fetch weather for future editions'') 400), st)"
  by (auto simp add: fetchWeatherForEdition_def)

text \<open>An edition in the future whose location is no geometry at all: the date error, not
  the format error.\<close>

theorem fetch_future_date_witness:
  "fetchWeatherForEdition example_env (str ''ed-2024'') False
     (example_editions
        (example_edition\<lparr>startDate := 1800000000000, location := Some (str ''nowhere'')\<rparr>))
   = (Inl (AppError (str ''Cannot fetch weather for future editions'') 400),
      example_editions
        (example_edition\<lparr>startDate := 1800000000000, location := Some (str ''nowhere'')\<rparr>))"
  using fetch_future_date[of
      "example_editions
        (example_edition\<lparr>startDate := 1800000000000, location := Some (str ''nowhere'')\<rparr>)"
      "str ''ed-2024''"
      "example_edition\<lparr>startDate := 1800000000000, location := Some (str ''nowhere'')\<rparr>"
      False example_env]
  by (simp add: example_editions_def example_edition_def example_env_def)

section \<open>Fetching the weather of an edition: the coordinates\<close>

lemma getHistoricalWeather_calls:
  "api_calls (snd (getHistoricalWeather ev lat lon day st)) =
     api_calls st @ [\<lparr>latitude = lat, longitude = lon, start_date = day, end_date = day\<rparr>]"
  by (simp add: getHistoricalWeather_def Let_def split: api_response.splits option.splits)

lemma fetch_calls:
  assumes "editions st editionId = Some e" "\<not> (weatherFetched e \<and> \<not> force)"
    "\<not> startDate e > current_time ev"
    and "resolveCoordinates e = Inr (lat, lon)"
  shows "api_calls (snd (fetchWeatherForEdition ev editionId force st)) =
     api_calls st @
       [\<lparr>latitude = lat, longitude = lon,
         start_date = takeWhile (\<lambda>u. u \<noteq> 84) (toISOString ev (startDate e)),
         end_date = takeWhile (\<lambda>u. u \<noteq> 84) (toISOString ev (startDate e))\<rparr>]"
proof -
  let ?day = "takeWhile (\<lambda>u. u \<noteq> 84) (toISOString ev (startDate e))"
  have g: "(weatherFetched e \<and> \<not> force) = False" "(current_time ev < startDate e) = False"
    using assms(2,3) by auto
  have "api_calls (snd (fetchWeatherForEdition ev editionId force st)) =
      api_calls (snd (getHistoricalWeather ev lat lon ?day st))"
    by (cases "getHistoricalWeather ev lat lon ?day st")
      (simp add: fetchWeatherForEdition_def assms(1,4) g Let_def split: sum.splits)
  then show ?thesis by (simp add: getHistoricalWeather_calls)
qed

lemma fetch_no_coordinates:
  assumes "editions st editionId = Some e" "\<not> (weatherFetched e \<and> \<not> force)"
    "\<not> startDate e > current_time ev"
    and "resolveCoordinates e = Inl err"
  shows "fetchWeatherForEdition ev editionId force st = (Inl err, st)"
proof -
  have g: "(weatherFetched e \<and> \<not> force) = False" "(current_time ev < startDate e) = False"
    using assms(2,3) by auto
  show ?thesis by (simp add: fetchWeatherForEdition_def assms(1,4) g)
qed

text \<open>
  Claim C7. For every edition that passes the already-fetched guard and the date check:
  if the edition's own location is present (not null and not the empty string), that
  string is the one parsed, and either its format error is the result or its coordinates
  are the ones sent to the archive API; otherwise, if the location of the parent event is
  present, the same holds of the event's string; otherwise the operation fails with the
  no-location error (status 400) and changes nothing.
\<close>

theorem fetch_resolves_coordinates:
  assumes "editions st editionId = Some e" "\<not> (weatherFetched e \<and> \<not> force)"
    "\<not> startDate e > current_time ev"
  shows "(location e = Some s \<and> s \<noteq> [] \<longrightarrow>
            (case parseLocation (str ''Invalid edition location format'') s of
               Inl err \<Rightarrow> fetchWeatherForEdition ev editionId force st = (Inl err, st)
             | Inr (lat, lon) \<Rightarrow>
                 api_calls (snd (fetchWeatherForEdition ev editionId force st)) =
                   api_calls st @
                     [\<lparr>latitude = lat, longitude = lon,
                       start_date = takeWhile (\<lambda>u. u \<noteq> 84) (toISOString ev (startDate e)),
                       end_date = takeWhile (\<lambda>u. u \<noteq> 84) (toISOString ev (startDate e))\<rparr>]))
    \<and> ((location e = None \<or> location e = Some []) \<and> event_location e = Some s \<and> s \<noteq> [] \<longrightarrow>
            (case parseLocation (str ''Invalid event location format'') s of
               Inl err \<Rightarrow> fetchWeatherForEdition ev editionId force st = (Inl err, st)
             | Inr (lat, lon) \<Rightarrow>
                 api_calls (snd (fetchWeatherForEdition ev editionId force st)) =
                   api_calls st @
                     [\<lparr>latitude = lat, longitude = lon,
                       start_date = takeWhile (\<lambda>u. u \<noteq> 84) (toISOString ev (startDate e)),
                       end_date = takeWhile (\<lambda>u. u \<noteq> 84) (toISOString ev (startDate e))\<rparr>]))
    \<and> ((location e = None \<or> location e = Some [])
          \<and> (event_location e = None \<or> event_location e = Some []) \<longrightarrow>
            fetchWeatherForEdition ev editionId force st =
              (Inl (AppError (str ''No location data available for this edition'') 400), st))"
proof (intro conjI impI)
  assume a: "location e = Some s \<and> s \<noteq> []"
  then have r: "resolveCoordinates e
      = parseLocation (str ''Invalid edition location format'') s"
    by (simp add: resolveCoordinates_def)
  show "case parseLocation (str ''Invalid edition location format'') s of
               Inl err \<Rightarrow> fetchWeatherForEdition ev editionId force st = (Inl err, st)
             | Inr (lat, lon) \<Rightarrow>
                 api_calls (snd (fetchWeatherForEdition ev editionId force st)) =
                   api_calls st @
                     [\<lparr>latitude = lat, longitude = lon,
                       start_date = takeWhile (\<lambda>u. u \<noteq> 84) (toISOString ev (startDate e)),
                       end_date = takeWhile (\<lambda>u. u \<noteq> 84) (toISOString ev (startDate e))\<rparr>]"
    using fetch_no_coordinates[OF assms] fetch_calls[OF assms] r
    by (auto split: sum.splits)
next
  assume a: "(location e = None \<or> location e = Some []) \<and> event_location e = Some s \<and> s \<noteq> []"
  then have r: "resolveCoordinates e
      = parseLocation (str ''Invalid event location format'') s"
    by (auto simp add: resolveCoordinates_def)
  show "case parseLocation (str ''Invalid event location format'') s of
               Inl err \<Rightarrow> fetchWeatherForEdition ev editionId force st = (Inl err, st)
             | Inr (lat, lon) \<Rightarrow>
                 api_calls (snd (fetchWeatherForEdition ev editionId force st)) =
                   api_calls st @
                     [\<lparr>latitude = lat, longitude = lon,
                       start_date = takeWhile (\<lambda>u. u \<noteq> 84) (toISOString ev (startDate e)),
                       end_date = takeWhile (\<lambda>u. u \<noteq> 84) (toISOString ev (startDate e))\<rparr>]"
    using fetch_no_coordinates[OF assms] fetch_calls[OF assms] r
    by (auto split: sum.splits)
next
  assume "(location e = None \<or> location e = Some [])
          \<and> (event_location e = None \<or> event_location e = Some [])"
  then have "resolveCoordinates e =
      Inl (AppError (str ''No location data available for this edition'') 400)"
    by (auto simp add: resolveCoordinates_def)
  then show "fetchWeatherForEdition ev editionId force st =
            (Inl (AppError (str ''No location data available for this edition'') 400), st)"
    by (rule fetch_no_coordinates[OF assms])
qed

lemmas point_eval = parseLocation_def match_here_def str_def coord_char_def is_digit_def
  white_space_def parseFloat_def digits_value_def exponent_of_def

lemma example_point: "parseLocation m (str ''POINT(-3.7038 40.4168)'')
    = Inr (Num (404168 / 10000), Num (- (37038 / 10000)))"
  by (simp add: point_eval)

lemma example_event_point: "parseLocation m (str ''POINT(2.1734 41.3851)'')
    = Inr (Num (413851 / 10000), Num (21734 / 10000))"
  by (simp add: point_eval)

lemma example_day:
  "takeWhile (\<lambda>u. u \<noteq> 84) (str ''2024-06-01T08:00:00.000Z'') = str ''2024-06-01''"
  by (simp add: str_def)

lemma example_points_nonempty:
  "str ''POINT(-3.7038 40.4168)'' \<noteq> []" "str ''POINT(2.1734 41.3851)'' \<noteq> []"
  by (simp_all add: str_def)

text \<open>The example edition has both locations and its own is the one sent; without its
  own, the event's is sent; without either, the no-location error.\<close>

theorem fetch_resolves_coordinates_witness:
  "api_calls (snd (fetchWeatherForEdition example_env (str ''ed-2024'') False
       (example_editions example_edition)))
     = [\<lparr>latitude = Num (404168 / 10000), longitude = Num (- (37038 / 10000)),
         start_date = str ''2024-06-01'', end_date = str ''2024-06-01''\<rparr>]
   \<and> api_calls (snd (fetchWeatherForEdition example_env (str ''ed-2024'') False
       (example_editions (example_edition\<lparr>location := None\<rparr>))))
     = [\<lparr>latitude = Num (413851 / 10000), longitude = Num (21734 / 10000),
         start_date = str ''2024-06-01'', end_date = str ''2024-06-01''\<rparr>]
   \<and> fetchWeatherForEdition example_env (str ''ed-2024'') False
       (example_editions (example_edition\<lparr>location := None, event_location := None\<rparr>))
     = (Inl (AppError (str ''No location data available for this edition'') 400),
        example_editions (example_edition\<lparr>location := None, event_location := None\<rparr>))"
proof -
  have "api_calls (snd (fetchWeatherForEdition example_env (str ''ed-2024'') False
       (example_editions example_edition)))
     = [\<lparr>latitude = Num (404168 / 10000), longitude = Num (- (37038 / 10000)),
         start_date = str ''2024-06-01'', end_date = str ''2024-06-01''\<rparr>]"
    using fetch_resolves_coordinates[of "example_editions example_edition" "str ''ed-2024''"
        example_edition False example_env "str ''POINT(-3.7038 40.4168)''"]
    by (simp add: example_point example_day example_points_nonempty example_editions_def
        example_edition_def example_env_def)
  moreover have "api_calls (snd (fetchWeatherForEdition example_env (str ''ed-2024'') False
       (example_editions (example_edition\<lparr>location := None\<rparr>))))
     = [\<lparr>latitude = Num (413851 / 10000), longitude = Num (21734 / 10000),
         start_date = str ''2024-06-01'', end_date = str ''2024-06-01''\<rparr>]"
    using fetch_resolves_coordinates[of "example_editions (example_edition\<lparr>location := None\<rparr>)"
        "str ''ed-2024''" "example_edition\<lparr>location := None\<rparr>" False example_env
        "str ''POINT(2.1734 41.3851)''"]
    by (simp add: example_event_point example_day example_points_nonempty
        example_editions_def example_edition_def example_env_def)
  moreover have "fetchWeatherForEdition example_env (str ''ed-2024'') False
       (example_editions (example_edition\<lparr>location := None, event_location := None\<rparr>))
     = (Inl (AppError (str ''No location data available for this edition'') 400),
        example_editions (example_edition\<lparr>location := None, event_location := None\<rparr>))"
    using fetch_resolves_coordinates[of
        "example_editions (example_edition\<lparr>location := None, event_location := None\<rparr>)"
        "str ''ed-2024''" "example_edition\<lparr>location := None, event_location := None\<rparr>"
        False example_env]
    by (simp add: example_editions_def example_edition_def example_env_def)
  ultimately show ?thesis by simp
qed

section \<open>Reading a point geometry\<close>

text \<open>The matcher against the expression: it succeeds exactly on the strings the
  expression describes, and the groups it returns are the two runs.\<close>

lemma run_takeWhile:
  "list_all P xs \<Longrightarrow> ys = [] \<or> \<not> P (hd ys) \<Longrightarrow> takeWhile P (xs @ ys) = xs"
  by (induction xs) (cases ys; auto)+

lemma run_dropWhile:
  "list_all P xs \<Longrightarrow> ys = [] \<or> \<not> P (hd ys) \<Longrightarrow> dropWhile P (xs @ ys) = ys"
  by (induction xs) (cases ys; auto)+



lemma length_POINT: "length (str ''POINT('') = 6"
  by (simp add: str_def)


lemma list_all_takeWhile: "list_all P (takeWhile P xs)"
  by (induction xs) auto













lemma unsigned_decimal_rest:
  assumes "unsigned_decimal s"
  shows "dropWhile is_digit s = []
    \<or> (\<exists>fp. dropWhile is_digit s = 46 # fp \<and> fp \<noteq> [] \<and> list_all is_digit fp)"
  using assms unfolding unsigned_decimal_def by (cases "dropWhile is_digit s") simp_all



lemma unsigned_decimal_chars:
  assumes "unsigned_decimal s"
  shows "s \<noteq> [] \<and> list_all coord_char s"
proof -
  have d: "list_all is_digit xs \<Longrightarrow> list_all coord_char xs" for xs
    by (induction xs) (auto simp: coord_char_def)
  have "list_all coord_char (takeWhile is_digit s)"
    by (rule d) (rule list_all_takeWhile)
  moreover have "list_all coord_char (dropWhile is_digit s)"
  proof -
    from unsigned_decimal_rest[OF assms] consider (whole) "dropWhile is_digit s = []"
      | (frac) fp where "dropWhile is_digit s = 46 # fp" "list_all is_digit fp" by blast
    then show ?thesis
    proof cases
      case whole
      show ?thesis by (simp add: whole)
    next
      case frac
      show ?thesis using d[OF frac(2)] by (simp add: frac(1) coord_char_def)
    qed
  qed
  ultimately have "list_all coord_char (takeWhile is_digit s @ dropWhile is_digit s)"
    by (simp only: list_all_append)
  then have "list_all coord_char s" by (simp only: takeWhile_dropWhile_id)
  moreover have "s \<noteq> []" using assms by (auto simp: unsigned_decimal_def)
  ultimately show ?thesis by simp
qed

lemma signed_decimal_chars:
  assumes "signed_decimal s"
  shows "s \<noteq> [] \<and> list_all coord_char s"
proof -
  obtain c r where s: "s = c # r" using assms by (cases s) (auto simp: signed_decimal_def)
  show ?thesis
  proof (cases "c = 45")
    case True
    then have "unsigned_decimal r" using assms by (simp add: signed_decimal_def s)
    then show ?thesis using unsigned_decimal_chars[of r] True by (simp add: s coord_char_def)
  next
    case False
    then have "unsigned_decimal s" using assms by (simp add: signed_decimal_def s)
    then show ?thesis by (rule unsigned_decimal_chars)
  qed
qed



lemma well_formed_point_complete:
  assumes "signed_decimal lon" "signed_decimal lat"
  shows "well_formed_point (str ''POINT('' @ lon @ 32 # lat @ [41])"
proof -
  have c: "list_all coord_char xs \<Longrightarrow> list_all (\<lambda>u. u \<noteq> 32) xs \<and> list_all (\<lambda>u. u \<noteq> 41) xs"
    for xs by (induction xs) (auto simp: coord_char_def is_digit_def)
  have lon: "list_all (\<lambda>u. u \<noteq> 32) lon" and lat: "list_all (\<lambda>u. u \<noteq> 41) lat"
    using c signed_decimal_chars[OF assms(1)] signed_decimal_chars[OF assms(2)] by auto
  let ?s = "str ''POINT('' @ lon @ 32 # lat @ [41]"
  have t: "take 6 ?s = str ''POINT(''" and d: "drop 6 ?s = lon @ 32 # lat @ [41]"
    by (simp_all add: length_POINT)
  have a1: "takeWhile (\<lambda>u. u \<noteq> 32) (lon @ 32 # lat @ [41]) = lon"
    and a2: "dropWhile (\<lambda>u. u \<noteq> 32) (lon @ 32 # lat @ [41]) = 32 # lat @ [41]"
    using lon by (simp_all add: run_takeWhile run_dropWhile)
  have b1: "takeWhile (\<lambda>u. u \<noteq> 41) (lat @ [41]) = lat"
    and b2: "dropWhile (\<lambda>u. u \<noteq> 41) (lat @ [41]) = [41]"
    using lat by (simp_all add: run_takeWhile run_dropWhile)
  show ?thesis
    unfolding well_formed_point_def t d Let_def a1 a2 using assms by (simp add: b1 b2)
qed

lemma well_formed_point_sound:
  assumes "well_formed_point s"
  shows "\<exists>lon lat. s = str ''POINT('' @ lon @ 32 # lat @ [41]
    \<and> signed_decimal lon \<and> signed_decimal lat"
proof -
  let ?r = "drop 6 s"
  let ?lon = "takeWhile (\<lambda>u. u \<noteq> 32) ?r"
  let ?r1 = "dropWhile (\<lambda>u. u \<noteq> 32) ?r"
  let ?lat = "takeWhile (\<lambda>u. u \<noteq> 41) (drop 1 ?r1)"
  let ?r2 = "dropWhile (\<lambda>u. u \<noteq> 41) (drop 1 ?r1)"
  from assms have p: "take 6 s = str ''POINT(''" and ne: "?r1 \<noteq> []" and r2: "?r2 = [41]"
    and sd: "signed_decimal ?lon" "signed_decimal ?lat"
    unfolding well_formed_point_def Let_def by blast+
  have "\<not> (hd ?r1 \<noteq> 32)" using ne by (rule hd_dropWhile)
  then have r1: "?r1 = 32 # drop 1 ?r1" using ne by (cases ?r1) auto
  have e1: "s = str ''POINT('' @ ?r" using append_take_drop_id[of 6 s] by (simp only: p)
  have e2: "?r = ?lon @ ?r1" by simp
  have e4: "drop 1 ?r1 = ?lat @ [41]" by (metis r2 takeWhile_dropWhile_id)
  have "s = str ''POINT('' @ ?lon @ 32 # ?lat @ [41]" by (metis e1 e2 r1 e4)
  then show ?thesis using sd by blast
qed




section \<open>The admin service\<close>

text \<open>
  Claim C9. For every competition in status DRAFT, \<open>rejectCompetition\<close> succeeds, and
  the competition it returns and stores is the old one with only the description
  replaced, by the old description followed by the rejection marker and the reason: the
  status is still DRAFT, and the organizer and every other column are as before. No cache
  key is invalidated.
\<close>

theorem reject_frame:
  assumes "competitions st competitionId = Some c" "status c = DRAFT"
  shows "(let c' = c\<lparr>description :=
                     Some (to_string (description c) @ reject_marker @ rejectionReason data)\<rparr>;
              r = rejectCompetition competitionId adminId data st
          in fst r = Inr c'
             \<and> competitions (snd r) = (competitions st)(competitionId \<mapsto> c')
             \<and> invalidated (snd r) = invalidated st
             \<and> status c' = DRAFT
             \<and> organizer_email c' = organizer_email c
             \<and> competition.more c' = competition.more c)"
  using assms
  by (simp add: rejectCompetition_def Let_def logger_def reject_marker_def)

theorem reject_frame_witness:
  "fst (rejectCompetition (str ''c-1'') (str ''admin-7'')
          \<lparr>rejectionReason = str ''Missing route map''\<rparr> (example_admin example_competition))
     = Inr \<lparr>status = DRAFT,
            description = Some (str ''Trail 42k'' @ reject_marker @ str ''Missing route map''),
            organizer_email = str ''org@example.com''\<rparr>
   \<and> competitions (snd (rejectCompetition (str ''c-1'') (str ''admin-7'')
          \<lparr>rejectionReason = str ''Missing route map''\<rparr> (example_admin example_competition)))
       (str ''c-1'')
     = Some \<lparr>status = DRAFT,
            description = Some (str ''Trail 42k'' @ reject_marker @ str ''Missing route map''),
            organizer_email = str ''org@example.com''\<rparr>"
  using reject_frame[of "example_admin example_competition" "str ''c-1''" example_competition
      "\<lparr>rejectionReason = str ''Missing route map''\<rparr>" "str ''admin-7''"]
  by (simp add: example_admin_def example_competition_def Let_def)

text \<open>
  Claim C10. \<open>updateCompetitionStatus\<close> asks nothing of the current status: for every
  existing competition and every target status it succeeds, and the competition it
  returns and stores is the old one with the status set to the target. \<open>approveCompetition\<close>
  and \<open>rejectCompetition\<close>, on a competition whose status is not DRAFT, fail and change
  nothing.
\<close>

theorem update_status_unguarded:
  "(competitions st competitionId = Some c \<longrightarrow>
      fst (updateCompetitionStatus competitionId newStatus adminId st)
        = Inr (c\<lparr>status := newStatus\<rparr>)
      \<and> competitions (snd (updateCompetitionStatus competitionId newStatus adminId st))
        = (competitions st)(competitionId \<mapsto> c\<lparr>status := newStatus\<rparr>)
      \<and> status (c\<lparr>status := newStatus\<rparr>) = newStatus)
   \<and> (competitions st competitionId = Some c \<and> status c \<noteq> DRAFT \<longrightarrow>
        approveCompetition competitionId adminId data st =
          (Inl (Error (str ''Only DRAFT competitions can be approved'')), st)
      \<and> rejectCompetition competitionId adminId rdata st =
          (Inl (Error (str ''Only DRAFT competitions can be rejected'')), st))"
  by (simp add: updateCompetitionStatus_def approveCompetition_def rejectCompetition_def
      Let_def logger_def invalidateCache_def)

text \<open>A published competition is cancelled by a status update, while approval and
  rejection refuse it.\<close>

theorem update_status_unguarded_witness:
  "fst (updateCompetitionStatus (str ''c-1'') CANCELLED (str ''admin-7'')
          (example_admin (example_competition\<lparr>status := PUBLISHED\<rparr>)))
     = Inr (example_competition\<lparr>status := CANCELLED\<rparr>)
   \<and> approveCompetition (str ''c-1'') (str ''admin-7'') None
          (example_admin (example_competition\<lparr>status := PUBLISHED\<rparr>))
     = (Inl (Error (str ''Only DRAFT competitions can be approved'')),
        example_admin (example_competition\<lparr>status := PUBLISHED\<rparr>))
   \<and> rejectCompetition (str ''c-1'') (str ''admin-7'')
          \<lparr>rejectionReason = str ''Missing route map''\<rparr>
          (example_admin (example_competition\<lparr>status := PUBLISHED\<rparr>))
     = (Inl (Error (str ''Only DRAFT competitions can be rejected'')),
        example_admin (example_competition\<lparr>status := PUBLISHED\<rparr>))"
  using update_status_unguarded[of "example_admin (example_competition\<lparr>status := PUBLISHED\<rparr>)"
      "str ''c-1''" "example_competition\<lparr>status := PUBLISHED\<rparr>" CANCELLED "str ''admin-7''"
      None "\<lparr>rejectionReason = str ''Missing route map''\<rparr>"]
  by (simp add: example_admin_def example_competition_def)

end
